theory Spec2Isabelle
  imports Main "HOL-Library.Word"
begin

section \<open>JavaScript strings\<close>

text \<open>
  A JavaScript string is a sequence of 16-bit code units. Literals of the source are
  written \<open>js ''...''\<close>: every character of an ASCII literal is one code unit.
\<close>

type_synonym jsstring = "16 word list"

definition js :: "string \<Rightarrow> jsstring" where
  "js s = map of_char s"

text \<open>
  \<open>Boolean(s)\<close> for a string \<open>s\<close>, which is also what \<open>!s\<close> negates: the empty string
  is the only falsy string.
\<close>

definition Boolean :: "jsstring \<Rightarrow> bool" where
  "Boolean s = (s \<noteq> [])"

text \<open>
  The code units that \<open>String.prototype.trim\<close> strips: ECMAScript's WhiteSpace
  (TAB, VT, FF, ZWNBSP and the Unicode space separators) and LineTerminator
  (LF, CR, LS, PS).
\<close>

definition isWhiteSpace :: "16 word \<Rightarrow> bool" where
  "isWhiteSpace c \<longleftrightarrow>
     c \<in> set [0x0009, 0x000A, 0x000B, 0x000C, 0x000D, 0x0020, 0x00A0, 0x1680,
              0x2028, 0x2029, 0x202F, 0x205F, 0x3000, 0xFEFF]
     \<or> (0x2000 \<le> c \<and> c \<le> 0x200A)"

definition trimStart :: "jsstring \<Rightarrow> jsstring" where
  "trimStart s = dropWhile isWhiteSpace s"

definition trimEnd :: "jsstring \<Rightarrow> jsstring" where
  "trimEnd s = rev (dropWhile isWhiteSpace (rev s))"

definition trim :: "jsstring \<Rightarrow> jsstring" where
  "trim s = trimEnd (trimStart s)"

text \<open>
  \<open>s.split(sep)\<close> for a separator of one code unit: the substring up to the next
  separator, then the split of what follows it; a string without separator (the empty
  string too) is the only piece.
\<close>

function split :: "16 word \<Rightarrow> jsstring \<Rightarrow> jsstring list" where
  "split sep s =
     (case dropWhile (\<lambda>c. c \<noteq> sep) s of
        [] \<Rightarrow> [takeWhile (\<lambda>c. c \<noteq> sep) s]
      | _ # rest \<Rightarrow> takeWhile (\<lambda>c. c \<noteq> sep) s # split sep rest)"
  by pat_completeness auto
termination
proof (relation "measure (\<lambda>(sep, s). length s)")
  show "wf (measure (\<lambda>(sep, s). length s))" by simp
next
  fix sep :: "16 word" and s :: jsstring and x rest
  assume "dropWhile (\<lambda>c. c \<noteq> sep) s = x # rest"
  then have "Suc (length rest) = length (dropWhile (\<lambda>c. c \<noteq> sep) s)" by simp
  also have "\<dots> \<le> length s" by (rule length_dropWhile_le)
  finally show "((sep, rest), (sep, s)) \<in> measure (\<lambda>(sep, s). length s)" by simp
qed

declare split.simps [simp del]

text \<open>\<open>xs.join(sep)\<close>, the inverse of \<open>split\<close>; used to state what \<open>split\<close> computes.\<close>

fun join :: "16 word \<Rightarrow> jsstring list \<Rightarrow> jsstring" where
  "join sep [] = []"
| "join sep [p] = p"
| "join sep (p # q # ps) = p @ sep # join sep (q # ps)"

text \<open>\<open>s.includes(sub)\<close> (\<open>includes\<close> is a keyword here): \<open>sub\<close> occurs in \<open>s\<close> at some position.\<close>

fun includes_js :: "jsstring \<Rightarrow> jsstring \<Rightarrow> bool" where
  "includes_js [] sub = (sub = [])"
| "includes_js (c # cs) sub = (take (length sub) (c # cs) = sub \<or> includes_js cs sub)"

text \<open>\<open>n.toString()\<close> for an integral number: decimal digits, with a sign when negative.\<close>

fun digits :: "nat \<Rightarrow> jsstring" where
  "digits n = (if n < 10 then [of_nat (48 + n)]
               else digits (n div 10) @ [of_nat (48 + n mod 10)])"

declare digits.simps [simp del]

definition toString :: "int \<Rightarrow> jsstring" where
  "toString n = (if n < 0 then 0x2D # digits (nat (- n)) else digits (nat n))"

text \<open>\<open>String(n).padStart(w, '0')\<close> for a natural number \<open>n\<close>.\<close>

definition padZero :: "nat \<Rightarrow> nat \<Rightarrow> jsstring" where
  "padZero w n = replicate (w - length (digits n)) 0x30 @ digits n"

text \<open>
  Year, month and day of the month of a day number (days since 1 January 1970) in the
  proleptic Gregorian calendar, as ECMAScript's YearFromTime, MonthFromTime and
  DateFromTime give them; eras of 400 years start on 1 March.
\<close>

definition civilFromDays :: "int \<Rightarrow> int \<times> int \<times> int" where
  "civilFromDays days =
     (let z = days + 719468;
          era = z div 146097;
          doe = z - era * 146097;
          yoe = (doe - doe div 1460 + doe div 36524 - doe div 146096) div 365;
          doy = doe - (365 * yoe + yoe div 4 - yoe div 100);
          mp = (5 * doy + 2) div 153;
          d = doy - (153 * mp + 2) div 5 + 1;
          m = (if mp < 10 then mp + 3 else mp - 9);
          y = yoe + era * 400 + (if m \<le> 2 then 1 else 0)
      in (y, m, d))"

text \<open>
  \<open>toISOString\<close> of a valid time value \<open>t\<close> (milliseconds since the epoch, UTC):
  \<open>YYYY-MM-DDTHH:mm:ss.sssZ\<close>, the year with a sign and six digits outside 0..9999.
\<close>

definition toISOString :: "int \<Rightarrow> jsstring" where
  "toISOString t =
     (let ms = nat (t mod 86400000);
          (y, m, d) = civilFromDays (t div 86400000);
          year = (if 0 \<le> y \<and> y \<le> 9999 then padZero 4 (nat y)
                  else (if y < 0 then 0x2D else 0x2B) # padZero 6 (nat \<bar>y\<bar>))
      in year @ js ''-'' @ padZero 2 (nat m) @ js ''-'' @ padZero 2 (nat d) @ js ''T''
         @ padZero 2 (ms div 3600000) @ js '':'' @ padZero 2 (ms div 60000 mod 60) @ js '':''
         @ padZero 2 (ms div 1000 mod 60) @ js ''.'' @ padZero 3 (ms mod 1000) @ js ''Z'')"

text \<open>
  \<open>a || b\<close> on values that are a string or \<open>undefined\<close> (\<open>None\<close>): the left operand
  when it is truthy, that is a non-empty string, otherwise the right operand.
\<close>

fun orElse :: "jsstring option \<Rightarrow> jsstring option \<Rightarrow> jsstring option" where
  "orElse (Some s) b = (if Boolean s then Some s else b)"
| "orElse None b = b"

fun orDefault :: "jsstring option \<Rightarrow> jsstring \<Rightarrow> jsstring" where
  "orDefault (Some s) d = (if Boolean s then s else d)"
| "orDefault None d = d"


section \<open>Data model of the page\<close>

datatype platform = google | teams

datatype status = scheduled | completed | cancelled

text \<open>The form state \<open>formData\<close> (lines 66-73).\<close>

record formData =
  title :: jsstring
  description :: jsstring
  startTime :: jsstring
  endTime :: jsstring
  attendees :: jsstring
  platform :: platform

text \<open>The interface \<open>Meeting\<close> (lines 46-57); an optional field is an \<open>option\<close>.\<close>

record Meeting =
  id :: jsstring
  title :: jsstring
  description :: jsstring
  startTime :: jsstring
  endTime :: jsstring
  attendees :: "jsstring list"
  platform :: platform
  meetingLink :: "jsstring option"
  joinUrl :: "jsstring option"
  status :: status

text \<open>The request payload (lines 82-88).\<close>

record payload =
  title :: jsstring
  description :: jsstring
  startTime :: jsstring
  endTime :: jsstring
  attendees :: "jsstring list"

datatype providerCall = createGoogleMeeting payload | createTeamsMeeting payload

fun payloadOf :: "providerCall \<Rightarrow> payload" where
  "payloadOf (createGoogleMeeting p) = p"
| "payloadOf (createTeamsMeeting p) = p"

text \<open>
  What a creation call resolves with: the fields the success handler reads,
  \<open>response.meetingLink\<close>, \<open>response.joinUrl\<close> and \<open>response.data\<close> with the same two
  fields; \<open>None\<close> is an absent (\<open>undefined\<close>) field.
\<close>

record responseData =
  meetingLink :: "jsstring option"
  joinUrl :: "jsstring option"

record response =
  meetingLink :: "jsstring option"
  joinUrl :: "jsstring option"
  data :: "responseData option"

text \<open>
  What a creation call rejects with: the two values the error handler reads,
  \<open>error.response?.data?.error\<close> (\<open>None\<close> when any link of the chain is absent) and
  \<open>error.message\<close>.
\<close>

record jsError =
  response_data_error :: "jsstring option"
  message :: "jsstring option"

text \<open>
  The collaborators of the page: \<open>new Date(s).getTime()\<close> (\<open>None\<close> is the Invalid Date),
  the current time read by \<open>new Date()\<close> and \<open>Date.now()\<close>, the message of the RangeError
  that \<open>toISOString\<close> throws on an Invalid Date, the truthiness of
  \<open>currentUser?.integrations?.microsoft?.connected\<close>, and how the integration service
  settles a creation call.
\<close>

record env =
  dateParse :: "jsstring \<Rightarrow> int option"
  dateNow :: int
  rangeErrorMessage :: jsstring
  microsoftConnected :: bool
  IntegrationService :: "providerCall \<Rightarrow> jsError + response"

text \<open>The component state (lines 62-76).\<close>

record pageState =
  isCreateDialogOpen :: bool
  selectedPlatform :: platform
  formData :: formData
  meetings :: "Meeting list"

text \<open>What the page does to the outside: notifications and requests, in order.\<close>

datatype event =
    ToastSuccess jsstring
  | ToastError jsstring
  | ToastInfo jsstring
  | Request providerCall

fun providerCalls :: "event list \<Rightarrow> providerCall list" where
  "providerCalls [] = []"
| "providerCalls (Request c # es) = c # providerCalls es"
| "providerCalls (_ # es) = providerCalls es"

fun toastErrors :: "event list \<Rightarrow> jsstring list" where
  "toastErrors [] = []"
| "toastErrors (ToastError m # es) = m # toastErrors es"
| "toastErrors (_ # es) = toastErrors es"


section \<open>The creation workflow\<close>

text \<open>The attendee parse of line 80.\<close>

definition attendeesList :: "jsstring \<Rightarrow> jsstring list" where
  "attendeesList s = filter Boolean (map trim (split 0x2C s))"

text \<open>
  \<open>mutationFn\<close> (lines 79-95): \<open>Inl\<close> is the exception that rejects the promise before any
  call is made, \<open>Inr\<close> the one creation call it issues.
\<close>

definition mutationFn :: "env \<Rightarrow> formData \<Rightarrow> jsError + providerCall" where
  "mutationFn e d =
     (case dateParse e (formData.startTime d) of
        None \<Rightarrow> Inl \<lparr>response_data_error = None, message = Some (rangeErrorMessage e)\<rparr>
      | Some st \<Rightarrow>
     (case dateParse e (formData.endTime d) of
        None \<Rightarrow> Inl \<lparr>response_data_error = None, message = Some (rangeErrorMessage e)\<rparr>
      | Some en \<Rightarrow>
          (let p = \<lparr>payload.title = formData.title d,
                    payload.description = formData.description d,
                    payload.startTime = toISOString st,
                    payload.endTime = toISOString en,
                    payload.attendees = attendeesList (formData.attendees d)\<rparr>
           in if formData.platform d = google then Inr (createGoogleMeeting p)
              else Inr (createTeamsMeeting p))))"

text \<open>\<open>resetForm\<close> (lines 123-132).\<close>

definition resetForm :: "pageState \<Rightarrow> pageState" where
  "resetForm s =
     s\<lparr>formData := \<lparr>formData.title = [], formData.description = [],
                     formData.startTime = [], formData.endTime = [],
                     formData.attendees = [], formData.platform = google\<rparr>\<rparr>"

text \<open>The record \<open>newMeeting\<close> of the success handler (lines 100-107).\<close>

definition newMeeting :: "env \<Rightarrow> response \<Rightarrow> formData \<Rightarrow> Meeting" where
  "newMeeting e r variables =
     \<lparr>Meeting.id = toString (dateNow e),
      Meeting.title = formData.title variables,
      Meeting.description = formData.description variables,
      Meeting.startTime = formData.startTime variables,
      Meeting.endTime = formData.endTime variables,
      Meeting.attendees =
        filter Boolean (map trim (split 0x2C (formData.attendees variables))),
      Meeting.platform = formData.platform variables,
      Meeting.meetingLink =
        orElse (response.meetingLink r)
          (case data r of None \<Rightarrow> None | Some d \<Rightarrow> responseData.meetingLink d),
      Meeting.joinUrl =
        orElse (response.joinUrl r)
          (case data r of None \<Rightarrow> None | Some d \<Rightarrow> responseData.joinUrl d),
      Meeting.status = scheduled\<rparr>"

text \<open>\<open>onSuccess\<close> (lines 96-112).\<close>

definition onSuccess :: "env \<Rightarrow> response \<Rightarrow> formData \<Rightarrow> pageState \<Rightarrow> pageState \<times> event list" where
  "onSuccess e r variables s =
     (resetForm (s\<lparr>meetings := newMeeting e r variables # meetings s,
                   isCreateDialogOpen := False\<rparr>),
      [ToastSuccess (js ''Meeting created successfully! Invitations sent to attendees.'')])"

text \<open>\<open>onError\<close> (lines 113-120).\<close>

definition onError :: "jsError \<Rightarrow> event list" where
  "onError error =
     (let errorMessage =
            orDefault (orElse (response_data_error error) (message error))
              (js ''Failed to create meeting'')
      in ToastError errorMessage #
         (if includes_js errorMessage (js ''not connected'')
          then [ToastInfo (js ''Please connect your Microsoft account in the Integrations tab.'')]
          else []))"

text \<open>
  \<open>createMeetingMutation.mutate(variables)\<close>: the mutation function runs; when it and the
  call it issues succeed, \<open>onSuccess\<close> gets the response and the same variables, otherwise
  \<open>onError\<close> gets the error. The request and its settlement are one step here.
\<close>

definition mutate :: "env \<Rightarrow> formData \<Rightarrow> pageState \<Rightarrow> pageState \<times> event list" where
  "mutate e variables s =
     (case mutationFn e variables of
        Inl error \<Rightarrow> (s, onError error)
      | Inr call \<Rightarrow>
          (case IntegrationService e call of
             Inl error \<Rightarrow> (s, Request call # onError error)
           | Inr r \<Rightarrow> (fst (onSuccess e r variables s),
                       Request call # snd (onSuccess e r variables s))))"

text \<open>\<open>handleCreateMeeting\<close> (lines 134-146).\<close>

definition handleCreateMeeting :: "env \<Rightarrow> pageState \<Rightarrow> pageState \<times> event list" where
  "handleCreateMeeting e s =
     (if \<not> Boolean (formData.title (formData s))
         \<or> \<not> Boolean (formData.startTime (formData s))
         \<or> \<not> Boolean (formData.endTime (formData s))
      then (s, [ToastError (js ''Please fill in all required fields'')])
      else
        (let warning =
               (if formData.platform (formData s) = teams \<and> \<not> microsoftConnected e
                then [ToastError (js ''Microsoft Teams integration NOT connected'')]
                else [])
         in (fst (mutate e (formData s) s), warning @ snd (mutate e (formData s) s))))"


section \<open>The meeting list view\<close>

text \<open>
  \<open>new Date(s) > new Date()\<close> and \<open>new Date(s) < new Date()\<close> compare time values; every
  comparison with the Invalid Date is false.
\<close>

fun dateGt :: "int option \<Rightarrow> int \<Rightarrow> bool" where
  "dateGt None n = False"
| "dateGt (Some t) n = (t > n)"

fun dateLt :: "int option \<Rightarrow> int \<Rightarrow> bool" where
  "dateLt None n = False"
| "dateLt (Some t) n = (t < n)"

text \<open>\<open>upcomingMeetings\<close> (lines 148-150) and \<open>pastMeetings\<close> (lines 152-154).\<close>

definition upcomingMeetings :: "env \<Rightarrow> Meeting list \<Rightarrow> Meeting list" where
  "upcomingMeetings e ms =
     filter (\<lambda>m. status m = scheduled \<and> dateGt (dateParse e (Meeting.startTime m)) (dateNow e)) ms"

definition pastMeetings :: "env \<Rightarrow> Meeting list \<Rightarrow> Meeting list" where
  "pastMeetings e ms =
     filter (\<lambda>m. status m = completed \<or> dateLt (dateParse e (Meeting.endTime m)) (dateNow e)) ms"


section \<open>A concrete run\<close>

text \<open>
  The examples below run the page in an engine whose time zone is UTC, at 09:00 on
  1 June 2024. \<open>sampleDates\<close> is what Date parsing gives there on the three date
  strings the examples use; their only other string, \<open>soon\<close>, is the Invalid Date in
  every engine.
\<close>

definition sampleDates :: "jsstring \<Rightarrow> int option" where
  "sampleDates =
     map_of [(js ''2024-06-01T08:00'', 1717228800000),
             (js ''2024-06-01T10:00'', 1717236000000),
             (js ''2024-06-01T11:00'', 1717239600000)]"

definition sampleService :: "providerCall \<Rightarrow> jsError + response" where
  "sampleService call =
     (case call of
        createGoogleMeeting p \<Rightarrow>
          Inr \<lparr>response.meetingLink = Some (js ''https://meet.example/abc''),
               response.joinUrl = None, data = None\<rparr>
      | createTeamsMeeting p \<Rightarrow>
          Inr \<lparr>response.meetingLink = None, response.joinUrl = None,
               data = Some \<lparr>responseData.meetingLink = None,
                            responseData.joinUrl = Some (js ''https://teams.example/j'')\<rparr>\<rparr>)"

definition sampleEnv :: env where
  "sampleEnv =
     \<lparr>dateParse = sampleDates, dateNow = 1717232400000,
      rangeErrorMessage = js ''Invalid time value'', microsoftConnected = False,
      IntegrationService = sampleService\<rparr>"

definition sampleDraft :: formData where
  "sampleDraft =
     \<lparr>formData.title = js ''Standup'', formData.description = [],
      formData.startTime = js ''2024-06-01T10:00'', formData.endTime = js ''2024-06-01T11:00'',
      formData.attendees = js ''a@x.com, , b@y.com ,'', formData.platform = google\<rparr>"

definition samplePayload :: payload where
  "samplePayload =
     \<lparr>payload.title = js ''Standup'', payload.description = [],
      payload.startTime = js ''2024-06-01T10:00:00.000Z'',
      payload.endTime = js ''2024-06-01T11:00:00.000Z'',
      payload.attendees = [js ''a@x.com'', js ''b@y.com'']\<rparr>"

definition sampleMeeting :: Meeting where
  "sampleMeeting =
     \<lparr>Meeting.id = js ''1717232400000'', Meeting.title = js ''Standup'',
      Meeting.description = [], Meeting.startTime = js ''2024-06-01T10:00'',
      Meeting.endTime = js ''2024-06-01T11:00'',
      Meeting.attendees = [js ''a@x.com'', js ''b@y.com''], Meeting.platform = google,
      Meeting.meetingLink = Some (js ''https://meet.example/abc''), Meeting.joinUrl = None,
      Meeting.status = scheduled\<rparr>"

definition sampleState :: pageState where
  "sampleState =
     \<lparr>isCreateDialogOpen = True, selectedPlatform = google, formData = sampleDraft,
      meetings = []\<rparr>"


section \<open>Evaluating the concrete run\<close>

lemma replicate_numeral_unfold: "replicate (numeral k) x = x # replicate (pred_numeral k) x"
  by (simp add: numeral_eq_Suc)

lemma sample_attendees:
  "attendeesList (js ''a@x.com, , b@y.com ,'') = [js ''a@x.com'', js ''b@y.com'']"
  by (simp add: attendeesList_def js_def split.simps trim_def trimEnd_def trimStart_def
      isWhiteSpace_def Boolean_def)

lemma sample_iso_start: "toISOString 1717236000000 = js ''2024-06-01T10:00:00.000Z''"
  unfolding toISOString_def civilFromDays_def Let_def padZero_def js_def
  by (simp add: digits.simps replicate_numeral_unfold)

lemma sample_iso_end: "toISOString 1717239600000 = js ''2024-06-01T11:00:00.000Z''"
  unfolding toISOString_def civilFromDays_def Let_def padZero_def js_def
  by (simp add: digits.simps replicate_numeral_unfold)

lemma sample_parse:
  "sampleDates (js ''2024-06-01T08:00'') = Some 1717228800000"
  "sampleDates (js ''2024-06-01T10:00'') = Some 1717236000000"
  "sampleDates (js ''2024-06-01T11:00'') = Some 1717239600000"
  "sampleDates (js ''soon'') = None"
  by (simp_all add: sampleDates_def js_def)

lemma sample_mutationFn: "mutationFn sampleEnv sampleDraft = Inr (createGoogleMeeting samplePayload)"
  by (simp add: mutationFn_def sampleEnv_def sampleDraft_def samplePayload_def sample_parse
      sample_iso_start sample_iso_end sample_attendees)

lemma sample_id: "toString 1717232400000 = js ''1717232400000''"
  unfolding toString_def js_def by (simp add: digits.simps)

lemma sample_newMeeting:
  "newMeeting sampleEnv
     \<lparr>response.meetingLink = Some (js ''https://meet.example/abc''),
      response.joinUrl = None, data = None\<rparr> sampleDraft = sampleMeeting"
  using sample_attendees sample_id
  by (simp add: newMeeting_def sampleEnv_def sampleDraft_def sampleMeeting_def attendeesList_def
      Boolean_def js_def)


section \<open>What the handlers emit\<close>

lemma providerCalls_append: "providerCalls (xs @ ys) = providerCalls xs @ providerCalls ys"
  by (induction xs rule: providerCalls.induct) simp_all

lemma providerCalls_onError: "providerCalls (onError err) = []"
  by (simp add: onError_def Let_def)

lemma providerCalls_onSuccess: "providerCalls (snd (onSuccess e r v s)) = []"
  by (simp add: onSuccess_def)

lemma toastErrors_onError:
  "toastErrors (onError err) =
     [orDefault (orElse (response_data_error err) (message err)) (js ''Failed to create meeting'')]"
  by (simp add: onError_def Let_def)

lemma providerCalls_mutate:
  "providerCalls (snd (mutate e d s)) =
     (case mutationFn e d of Inl err \<Rightarrow> [] | Inr call \<Rightarrow> [call])"
  by (simp add: mutate_def providerCalls_onError providerCalls_onSuccess
      split: sum.splits)

lemma providerCalls_handleCreateMeeting:
  "Boolean (formData.title (formData s)) \<Longrightarrow> Boolean (formData.startTime (formData s))
   \<Longrightarrow> Boolean (formData.endTime (formData s))
   \<Longrightarrow> providerCalls (snd (handleCreateMeeting e s)) =
       (case mutationFn e (formData s) of Inl err \<Rightarrow> [] | Inr call \<Rightarrow> [call])"
  by (simp add: handleCreateMeeting_def Let_def providerCalls_append providerCalls_mutate)


section \<open>Splitting and trimming\<close>

lemma split_nonempty: "split sep s \<noteq> []"
  by (subst split.simps) (simp split: list.splits)

lemma join_Cons: "ps \<noteq> [] \<Longrightarrow> join sep (p # ps) = p @ sep # join sep ps"
  by (cases ps) simp_all

lemma join_split: "join sep (split sep s) = s"
proof (induction sep s rule: split.induct)
  case (1 sep s)
  show ?case
  proof (cases "dropWhile (\<lambda>c. c \<noteq> sep) s")
    case Nil
    then have "takeWhile (\<lambda>c. c \<noteq> sep) s = s"
      by (metis append_Nil2 takeWhile_dropWhile_id)
    with Nil show ?thesis by (subst split.simps) (simp only: list.case join.simps)
  next
    case (Cons x rest)
    then have x: "x = sep" using hd_dropWhile[of "\<lambda>c. c \<noteq> sep" s] by auto
    have "join sep (split sep s) = takeWhile (\<lambda>c. c \<noteq> sep) s @ sep # join sep (split sep rest)"
      using Cons by (subst split.simps) (simp add: join_Cons split_nonempty)
    also have "\<dots> = takeWhile (\<lambda>c. c \<noteq> sep) s @ dropWhile (\<lambda>c. c \<noteq> sep) s"
      using "1.IH"[OF Cons] Cons x by simp
    finally show ?thesis by simp
  qed
qed

lemma split_pieces_no_sep: "p \<in> set (split sep s) \<Longrightarrow> sep \<notin> set p"
proof (induction sep s arbitrary: p rule: split.induct)
  case (1 sep s)
  have tw: "sep \<notin> set (takeWhile (\<lambda>c. c \<noteq> sep) s)"
    using set_takeWhileD by fastforce
  show ?case
  proof (cases "dropWhile (\<lambda>c. c \<noteq> sep) s")
    case Nil
    with "1.prems" tw show ?thesis by (subst (asm) split.simps) simp
  next
    case (Cons x rest)
    with "1.prems" have "p = takeWhile (\<lambda>c. c \<noteq> sep) s \<or> p \<in> set (split sep rest)"
      by (subst (asm) split.simps) simp
    with tw "1.IH"[OF Cons] show ?thesis by blast
  qed
qed

lemma trim_decompose:
  "p = takeWhile isWhiteSpace p @ trim p
        @ rev (takeWhile isWhiteSpace (rev (dropWhile isWhiteSpace p)))"
proof -
  let ?q = "dropWhile isWhiteSpace p"
  have "rev ?q = takeWhile isWhiteSpace (rev ?q) @ dropWhile isWhiteSpace (rev ?q)" by simp
  then have "?q = rev (dropWhile isWhiteSpace (rev ?q)) @ rev (takeWhile isWhiteSpace (rev ?q))"
    by (metis rev_append rev_rev_ident)
  then have "?q = trim p @ rev (takeWhile isWhiteSpace (rev ?q))"
    by (simp add: trim_def trimEnd_def trimStart_def)
  moreover have "p = takeWhile isWhiteSpace p @ ?q" by simp
  ultimately show ?thesis by metis
qed

lemma trim_hd: "trim p \<noteq> [] \<Longrightarrow> \<not> isWhiteSpace (hd (trim p))"
proof -
  assume ne: "trim p \<noteq> []"
  let ?q = "dropWhile isWhiteSpace p"
  have "trim p = []" if "?q = []"
    unfolding trim_def trimEnd_def trimStart_def that by simp
  with ne have q: "?q \<noteq> []" by blast
  have "hd (trim p) = hd ?q"
    using ne trim_decompose[of p]
    by (metis (no_types, lifting) append_eq_append_conv hd_append2 takeWhile_dropWhile_id)
  with q show ?thesis using hd_dropWhile[of isWhiteSpace p] by simp
qed

lemma trim_last: "trim p \<noteq> [] \<Longrightarrow> \<not> isWhiteSpace (last (trim p))"
proof -
  assume ne: "trim p \<noteq> []"
  let ?r = "dropWhile isWhiteSpace (rev (trimStart p))"
  have r: "?r \<noteq> []" using ne by (simp add: trim_def trimEnd_def)
  have "last (trim p) = hd ?r" using r by (simp add: trim_def trimEnd_def last_rev)
  with r show ?thesis using hd_dropWhile[of isWhiteSpace "rev (trimStart p)"] by simp
qed

lemma trim_surrounding:
  "\<exists>l r. p = l @ trim p @ r \<and> list_all isWhiteSpace l \<and> list_all isWhiteSpace r"
proof -
  have "list_all isWhiteSpace (takeWhile isWhiteSpace p)"
    by (auto simp: list_all_iff dest: set_takeWhileD)
  moreover have "list_all isWhiteSpace
      (rev (takeWhile isWhiteSpace (rev (dropWhile isWhiteSpace p))))"
    by (auto simp: list_all_iff dest: set_takeWhileD)
  ultimately show ?thesis using trim_decompose[of p] by blast
qed

lemma sample_split:
  "split 0x2C (js '' a@x.com ,,b@y.com'') = [js '' a@x.com '', [], js ''b@y.com'']"
  by (simp add: js_def split.simps)

lemma sample_trim: "trim (js '' a@x.com '') = js ''a@x.com''" "trim [] = []"
  "trim (js ''b@y.com'') = js ''b@y.com''"
  by (simp_all add: js_def trim_def trimEnd_def trimStart_def isWhiteSpace_def)


section \<open>Membership in the two tabs\<close>

lemma upcomingMeetings_iff:
  "m \<in> set (upcomingMeetings e ms) \<longleftrightarrow>
     m \<in> set ms \<and> status m = scheduled
     \<and> (\<exists>t. dateParse e (Meeting.startTime m) = Some t \<and> dateNow e < t)"
  by (cases "dateParse e (Meeting.startTime m)") (auto simp: upcomingMeetings_def)

lemma pastMeetings_iff:
  "m \<in> set (pastMeetings e ms) \<longleftrightarrow>
     m \<in> set ms \<and> (status m = completed
       \<or> (\<exists>t. dateParse e (Meeting.endTime m) = Some t \<and> t < dateNow e))"
  by (cases "dateParse e (Meeting.endTime m)") (auto simp: pastMeetings_def)


section \<open>Validation\<close>

text \<open>
  Claim C1. Whenever the title, the start time or the end time of the draft is the empty
  string, \<open>handleCreateMeeting\<close> leaves the state as it is, shows the one error
  notification "Please fill in all required fields" and issues no creation call, to
  neither provider.
\<close>

theorem handleCreateMeeting_missing_required_field:
  assumes "formData.title (formData s) = [] \<or> formData.startTime (formData s) = []
           \<or> formData.endTime (formData s) = []"
  shows "handleCreateMeeting e s = (s, [ToastError (js ''Please fill in all required fields'')])
         \<and> toastErrors (snd (handleCreateMeeting e s)) = [js ''Please fill in all required fields'']
         \<and> providerCalls (snd (handleCreateMeeting e s)) = []"
proof -
  from assms have "handleCreateMeeting e s = (s, [ToastError (js ''Please fill in all required fields'')])"
    by (auto simp: handleCreateMeeting_def Boolean_def)
  then show ?thesis by simp
qed

theorem handleCreateMeeting_missing_required_field_witness:
  "formData.startTime (formData (sampleState\<lparr>formData := sampleDraft\<lparr>formData.startTime := []\<rparr>\<rparr>)) = []
   \<and> toastErrors (snd (handleCreateMeeting sampleEnv
         (sampleState\<lparr>formData := sampleDraft\<lparr>formData.startTime := []\<rparr>\<rparr>)))
       = [js ''Please fill in all required fields'']
   \<and> providerCalls (snd (handleCreateMeeting sampleEnv
         (sampleState\<lparr>formData := sampleDraft\<lparr>formData.startTime := []\<rparr>\<rparr>))) = []"
  using handleCreateMeeting_missing_required_field
    [of "sampleState\<lparr>formData := sampleDraft\<lparr>formData.startTime := []\<rparr>\<rparr>" sampleEnv]
  by simp


section \<open>The success handler\<close>

text \<open>
  Claim C2. For every prior state and every response, \<open>onSuccess\<close> puts exactly one new
  record, \<open>newMeeting\<close>, in front of the unchanged prior list, that record has status
  \<open>scheduled\<close>, the dialog is closed, and every field of the form is back at its default:
  empty strings and platform \<open>google\<close>.
\<close>

theorem onSuccess_prepends_closes_resets:
  "meetings (fst (onSuccess e r variables s)) = newMeeting e r variables # meetings s
   \<and> status (newMeeting e r variables) = scheduled
   \<and> isCreateDialogOpen (fst (onSuccess e r variables s)) = False
   \<and> formData (fst (onSuccess e r variables s)) =
       \<lparr>formData.title = [], formData.description = [], formData.startTime = [],
        formData.endTime = [], formData.attendees = [], formData.platform = google\<rparr>"
  by (simp add: onSuccess_def resetForm_def newMeeting_def)

theorem onSuccess_prepends_closes_resets_witness:
  "meetings (fst (onSuccess sampleEnv
      \<lparr>response.meetingLink = Some (js ''https://meet.example/abc''),
       response.joinUrl = None, data = None\<rparr> sampleDraft
      (sampleState\<lparr>meetings := [sampleMeeting\<lparr>Meeting.status := cancelled\<rparr>]\<rparr>)))
   = [sampleMeeting, sampleMeeting\<lparr>Meeting.status := cancelled\<rparr>]"
  using onSuccess_prepends_closes_resets
    [of sampleEnv "\<lparr>response.meetingLink = Some (js ''https://meet.example/abc''),
       response.joinUrl = None, data = None\<rparr>" sampleDraft
       "sampleState\<lparr>meetings := [sampleMeeting\<lparr>Meeting.status := cancelled\<rparr>]\<rparr>"]
  by (simp add: sample_newMeeting)


section \<open>Dispatch to the provider\<close>

text \<open>
  Claim C3, as amended. A draft that passes validation leads to exactly one creation call,
  the Google call iff the platform is \<open>google\<close> and the Teams call otherwise, with the
  payload built from the draft, provided its start and end time both parse to a valid
  date; when either is the Invalid Date, \<open>toISOString\<close> throws before the dispatch and no
  call is made.
\<close>

theorem handleCreateMeeting_dispatch:
  assumes "formData.title (formData s) \<noteq> []" "formData.startTime (formData s) \<noteq> []"
    "formData.endTime (formData s) \<noteq> []"
  shows "providerCalls (snd (handleCreateMeeting e s)) =
     (case (dateParse e (formData.startTime (formData s)),
            dateParse e (formData.endTime (formData s))) of
        (Some st, Some en) \<Rightarrow>
          [(if formData.platform (formData s) = google then createGoogleMeeting
            else createTeamsMeeting)
             \<lparr>payload.title = formData.title (formData s),
              payload.description = formData.description (formData s),
              payload.startTime = toISOString st,
              payload.endTime = toISOString en,
              payload.attendees = attendeesList (formData.attendees (formData s))\<rparr>]
      | _ \<Rightarrow> [])"
proof -
  from assms have "providerCalls (snd (handleCreateMeeting e s)) =
       (case mutationFn e (formData s) of Inl err \<Rightarrow> [] | Inr call \<Rightarrow> [call])"
    by (simp add: providerCalls_handleCreateMeeting Boolean_def)
  then show ?thesis
    by (simp add: mutationFn_def Let_def split: option.splits)
qed

theorem handleCreateMeeting_dispatch_witness:
  "formData.title (formData sampleState) \<noteq> [] \<and> formData.startTime (formData sampleState) \<noteq> []
   \<and> formData.endTime (formData sampleState) \<noteq> []
   \<and> providerCalls (snd (handleCreateMeeting sampleEnv sampleState))
       = [createGoogleMeeting samplePayload]"
proof -
  have v: "formData.title (formData sampleState) \<noteq> []"
    "formData.startTime (formData sampleState) \<noteq> []"
    "formData.endTime (formData sampleState) \<noteq> []"
    by (simp_all add: sampleState_def sampleDraft_def js_def)
  have d: "dateParse sampleEnv (formData.startTime (formData sampleState)) = Some 1717236000000"
    "dateParse sampleEnv (formData.endTime (formData sampleState)) = Some 1717239600000"
    by (simp_all add: sampleState_def sampleDraft_def sampleEnv_def sample_parse)
  have f: "formData.platform (formData sampleState) = google"
    "formData.title (formData sampleState) = js ''Standup''"
    "formData.description (formData sampleState) = []"
    "formData.attendees (formData sampleState) = js ''a@x.com, , b@y.com ,''"
    by (simp_all add: sampleState_def sampleDraft_def)
  have "providerCalls (snd (handleCreateMeeting sampleEnv sampleState))
       = [createGoogleMeeting samplePayload]"
    using handleCreateMeeting_dispatch [OF v, of sampleEnv]
    by (simp add: d f sample_iso_start sample_iso_end sample_attendees samplePayload_def)
  with v show ?thesis by simp
qed

text \<open>
  The claim as stated fails: the draft with start time \<open>soon\<close> passes validation, and
  no creation call is made for it.
\<close>

theorem handleCreateMeeting_dispatch_counterexample:
  "Boolean (formData.title (sampleDraft\<lparr>formData.startTime := js ''soon''\<rparr>))
   \<and> Boolean (formData.startTime (sampleDraft\<lparr>formData.startTime := js ''soon''\<rparr>))
   \<and> Boolean (formData.endTime (sampleDraft\<lparr>formData.startTime := js ''soon''\<rparr>))
   \<and> providerCalls (snd (handleCreateMeeting sampleEnv
         (sampleState\<lparr>formData := sampleDraft\<lparr>formData.startTime := js ''soon''\<rparr>\<rparr>))) = []"
proof -
  let ?d = "sampleDraft\<lparr>formData.startTime := js ''soon''\<rparr>"
  have b: "Boolean (formData.title ?d)" "Boolean (formData.startTime ?d)"
    "Boolean (formData.endTime ?d)"
    by (simp_all add: sampleDraft_def Boolean_def js_def)
  have "dateParse sampleEnv (formData.startTime ?d) = None"
    by (simp add: sampleEnv_def sample_parse)
  then have "mutate sampleEnv ?d (sampleState\<lparr>formData := ?d\<rparr>)
      = (sampleState\<lparr>formData := ?d\<rparr>,
         onError \<lparr>response_data_error = None, message = Some (rangeErrorMessage sampleEnv)\<rparr>)"
    by (simp add: mutate_def mutationFn_def)
  with b have "providerCalls (snd (handleCreateMeeting sampleEnv (sampleState\<lparr>formData := ?d\<rparr>))) = []"
    by (simp add: handleCreateMeeting_def Let_def providerCalls_append providerCalls_onError)
  with b show ?thesis by simp
qed


section \<open>Attendee parsing\<close>

text \<open>
  Claim C4. For every raw attendees string \<open>s\<close>, the parse of line 80 splits at the
  commas (code unit 0x2C): joining the pieces with commas gives \<open>s\<close> back and no piece
  holds a comma. Each piece is trimmed: the trimmed piece is the piece without a run of
  white space in front and a run of white space behind, and it neither starts nor ends
  with white space. The result is the list of the trimmed pieces that are not empty, in
  their order. On \<open>a@x.com, , b@y.com ,\<close> it is the two addresses.
\<close>

theorem attendeesList_split_trim_drop_empty:
  "join 0x2C (split 0x2C s) = s
   \<and> (\<forall>p \<in> set (split 0x2C s). 0x2C \<notin> set p
        \<and> (\<exists>l r. p = l @ trim p @ r \<and> list_all isWhiteSpace l \<and> list_all isWhiteSpace r)
        \<and> (trim p \<noteq> [] \<longrightarrow> \<not> isWhiteSpace (hd (trim p)) \<and> \<not> isWhiteSpace (last (trim p))))
   \<and> attendeesList s = filter (\<lambda>a. a \<noteq> []) (map trim (split 0x2C s))
   \<and> attendeesList (js ''a@x.com, , b@y.com ,'') = [js ''a@x.com'', js ''b@y.com'']"
proof (intro conjI ballI)
  show "join 0x2C (split 0x2C s) = s" by (rule join_split)
next
  fix p assume "p \<in> set (split 0x2C s)"
  then show "0x2C \<notin> set p" by (rule split_pieces_no_sep)
next
  fix p
  show "\<exists>l r. p = l @ trim p @ r \<and> list_all isWhiteSpace l \<and> list_all isWhiteSpace r"
    by (rule trim_surrounding)
next
  fix p
  show "trim p \<noteq> [] \<longrightarrow> \<not> isWhiteSpace (hd (trim p)) \<and> \<not> isWhiteSpace (last (trim p))"
    using trim_hd trim_last by blast
next
  have "Boolean = (\<lambda>a. a \<noteq> [])" by (rule ext) (simp add: Boolean_def)
  then show "attendeesList s = filter (\<lambda>a. a \<noteq> []) (map trim (split 0x2C s))"
    by (simp add: attendeesList_def)
next
  show "attendeesList (js ''a@x.com, , b@y.com ,'') = [js ''a@x.com'', js ''b@y.com'']"
    by (rule sample_attendees)
qed

theorem attendeesList_split_trim_drop_empty_witness:
  "js '' a@x.com '' \<in> set (split 0x2C (js '' a@x.com ,,b@y.com''))
   \<and> 0x2C \<notin> set (js '' a@x.com '')
   \<and> trim (js '' a@x.com '') \<noteq> []
   \<and> \<not> isWhiteSpace (hd (trim (js '' a@x.com '')))
   \<and> \<not> isWhiteSpace (last (trim (js '' a@x.com '')))
   \<and> attendeesList (js '' a@x.com ,,b@y.com'') = [js ''a@x.com'', js ''b@y.com'']"
proof -
  let ?s = "js '' a@x.com ,,b@y.com''"
  have m: "js '' a@x.com '' \<in> set (split 0x2C ?s)" by (simp add: sample_split)
  have n: "trim (js '' a@x.com '') \<noteq> []" by (simp only: sample_trim) (simp add: js_def)
  have e: "filter (\<lambda>a. a \<noteq> []) (map trim (split 0x2C ?s)) = [js ''a@x.com'', js ''b@y.com'']"
    by (simp add: sample_split sample_trim) (simp add: js_def)
  from attendeesList_split_trim_drop_empty [of ?s] m n e show ?thesis by auto
qed


section \<open>Upcoming and past\<close>

text \<open>
  Claim C5, as amended. At a fixed current time, a listed meeting with status
  \<open>scheduled\<close> whose start time is one hour after the current time is in the upcoming
  tab; it is in the past tab exactly when its end time is before the current time, so it
  is outside the past tab whenever its end time is not before the current time.
\<close>

theorem scheduled_one_hour_ahead_is_upcoming:
  assumes "m \<in> set ms" and "status m = scheduled"
    and "dateParse e (Meeting.startTime m) = Some (dateNow e + 3600000)"
  shows "m \<in> set (upcomingMeetings e ms)
         \<and> (m \<in> set (pastMeetings e ms) \<longleftrightarrow>
              (\<exists>t. dateParse e (Meeting.endTime m) = Some t \<and> t < dateNow e))"
  using assms by (simp add: upcomingMeetings_iff pastMeetings_iff)

theorem scheduled_one_hour_ahead_is_upcoming_witness:
  "sampleMeeting \<in> set [sampleMeeting] \<and> status sampleMeeting = scheduled
   \<and> dateParse sampleEnv (Meeting.startTime sampleMeeting) = Some (dateNow sampleEnv + 3600000)
   \<and> sampleMeeting \<in> set (upcomingMeetings sampleEnv [sampleMeeting])
   \<and> sampleMeeting \<notin> set (pastMeetings sampleEnv [sampleMeeting])"
proof -
  have h: "sampleMeeting \<in> set [sampleMeeting]" "status sampleMeeting = scheduled"
    "dateParse sampleEnv (Meeting.startTime sampleMeeting) = Some (dateNow sampleEnv + 3600000)"
    by (simp_all add: sampleMeeting_def sampleEnv_def sample_parse)
  have n: "\<not> (\<exists>t. dateParse sampleEnv (Meeting.endTime sampleMeeting) = Some t
                  \<and> t < dateNow sampleEnv)"
    by (simp add: sampleMeeting_def sampleEnv_def sample_parse)
  from scheduled_one_hour_ahead_is_upcoming [OF h] n h show ?thesis by blast
qed

text \<open>
  The claim as stated fails: nothing makes the end time follow the start time, and a
  scheduled meeting that starts in one hour and whose end time is an hour ago is in the
  past tab.
\<close>

theorem scheduled_one_hour_ahead_counterexample:
  "sampleMeeting\<lparr>Meeting.endTime := js ''2024-06-01T08:00''\<rparr>
     \<in> set [sampleMeeting\<lparr>Meeting.endTime := js ''2024-06-01T08:00''\<rparr>]
   \<and> status (sampleMeeting\<lparr>Meeting.endTime := js ''2024-06-01T08:00''\<rparr>) = scheduled
   \<and> dateParse sampleEnv
        (Meeting.startTime (sampleMeeting\<lparr>Meeting.endTime := js ''2024-06-01T08:00''\<rparr>))
       = Some (dateNow sampleEnv + 3600000)
   \<and> sampleMeeting\<lparr>Meeting.endTime := js ''2024-06-01T08:00''\<rparr>
       \<in> set (pastMeetings sampleEnv
                [sampleMeeting\<lparr>Meeting.endTime := js ''2024-06-01T08:00''\<rparr>])"
  by (simp add: pastMeetings_def sampleMeeting_def sampleEnv_def sample_parse)

text \<open>
  Claim C6. At a fixed current time, a listed meeting with status \<open>scheduled\<close> whose
  start time and end time are both strictly before the current time is in the past tab,
  although its status is not \<open>completed\<close> (and it is not in the upcoming tab).
\<close>

theorem scheduled_ended_is_past:
  assumes "m \<in> set ms" and "status m = scheduled"
    and "dateParse e (Meeting.startTime m) = Some a" and "a < dateNow e"
    and "dateParse e (Meeting.endTime m) = Some b" and "b < dateNow e"
  shows "m \<in> set (pastMeetings e ms) \<and> status m \<noteq> completed
         \<and> m \<notin> set (upcomingMeetings e ms)"
  using assms by (simp add: upcomingMeetings_iff pastMeetings_iff)

theorem scheduled_ended_is_past_witness:
  "status (sampleMeeting\<lparr>Meeting.startTime := js ''2024-06-01T08:00'',
                         Meeting.endTime := js ''2024-06-01T08:00''\<rparr>) = scheduled
   \<and> dateParse sampleEnv (js ''2024-06-01T08:00'') = Some 1717228800000
   \<and> 1717228800000 < dateNow sampleEnv
   \<and> sampleMeeting\<lparr>Meeting.startTime := js ''2024-06-01T08:00'',
                     Meeting.endTime := js ''2024-06-01T08:00''\<rparr>
       \<in> set (pastMeetings sampleEnv
           [sampleMeeting\<lparr>Meeting.startTime := js ''2024-06-01T08:00'',
                          Meeting.endTime := js ''2024-06-01T08:00''\<rparr>])"
proof -
  let ?m = "sampleMeeting\<lparr>Meeting.startTime := js ''2024-06-01T08:00'',
                          Meeting.endTime := js ''2024-06-01T08:00''\<rparr>"
  have p: "dateParse sampleEnv (js ''2024-06-01T08:00'') = Some 1717228800000"
    and l: "1717228800000 < dateNow sampleEnv"
    by (simp_all add: sampleEnv_def sample_parse)
  have h: "?m \<in> set [?m]" "status ?m = scheduled"
    "dateParse sampleEnv (Meeting.startTime ?m) = Some 1717228800000"
    "dateParse sampleEnv (Meeting.endTime ?m) = Some 1717228800000"
    using p by (simp_all add: sampleMeeting_def)
  from scheduled_ended_is_past [OF h(1) h(2) h(3) l h(4) l] h p l show ?thesis by blast
qed

text \<open>
  Claim C9. At a fixed current time, a meeting with status \<open>cancelled\<close>, a start time
  strictly after the current time and an end time that is not before the current time is
  in neither tab, whatever the list.
\<close>

theorem cancelled_future_in_neither:
  assumes "status m = cancelled"
    and "dateParse e (Meeting.startTime m) = Some a" and "dateNow e < a"
    and "\<forall>b. dateParse e (Meeting.endTime m) = Some b \<longrightarrow> dateNow e \<le> b"
  shows "m \<notin> set (upcomingMeetings e ms) \<and> m \<notin> set (pastMeetings e ms)"
proof -
  from assms(4) have "\<not> (\<exists>t. dateParse e (Meeting.endTime m) = Some t \<and> t < dateNow e)"
    by fastforce
  with assms(1) show ?thesis by (simp add: upcomingMeetings_iff pastMeetings_iff)
qed

theorem cancelled_future_in_neither_witness:
  "status (sampleMeeting\<lparr>status := cancelled\<rparr>) = cancelled
   \<and> dateParse sampleEnv (Meeting.startTime (sampleMeeting\<lparr>status := cancelled\<rparr>))
       = Some 1717236000000
   \<and> dateNow sampleEnv < 1717236000000
   \<and> dateParse sampleEnv (Meeting.endTime (sampleMeeting\<lparr>status := cancelled\<rparr>))
       = Some 1717239600000
   \<and> dateNow sampleEnv \<le> 1717239600000
   \<and> sampleMeeting\<lparr>status := cancelled\<rparr> \<in> set [sampleMeeting\<lparr>status := cancelled\<rparr>]
   \<and> sampleMeeting\<lparr>status := cancelled\<rparr>
       \<notin> set (upcomingMeetings sampleEnv [sampleMeeting\<lparr>status := cancelled\<rparr>])
   \<and> sampleMeeting\<lparr>status := cancelled\<rparr>
       \<notin> set (pastMeetings sampleEnv [sampleMeeting\<lparr>status := cancelled\<rparr>])"
proof -
  let ?m = "sampleMeeting\<lparr>status := cancelled\<rparr>"
  have h: "status ?m = cancelled"
    "dateParse sampleEnv (Meeting.startTime ?m) = Some 1717236000000"
    "dateNow sampleEnv < 1717236000000"
    by (simp_all add: sampleMeeting_def sampleEnv_def sample_parse)
  have en: "dateParse sampleEnv (Meeting.endTime ?m) = Some 1717239600000"
    "dateNow sampleEnv \<le> 1717239600000"
    by (simp_all add: sampleMeeting_def sampleEnv_def sample_parse)
  then have q: "\<forall>b. dateParse sampleEnv (Meeting.endTime ?m) = Some b \<longrightarrow> dateNow sampleEnv \<le> b"
    by simp
  from cancelled_future_in_neither [OF h q, of "[?m]"] h en show ?thesis by simp
qed


section \<open>The error handler\<close>

text \<open>
  Claim C7, as amended. The error notification shows exactly the server-supplied error
  field when that field is a non-empty string; without such a field it shows the
  message of the error when that is a non-empty string, and the generic
  "Failed to create meeting" only when the error has no message either.
\<close>

theorem onError_message:
  "(\<forall>m. response_data_error err = Some m \<and> m \<noteq> [] \<longrightarrow> toastErrors (onError err) = [m])
   \<and> (response_data_error err = None \<or> response_data_error err = Some [] \<longrightarrow>
        (\<forall>m. message err = Some m \<and> m \<noteq> [] \<longrightarrow> toastErrors (onError err) = [m])
        \<and> (message err = None \<or> message err = Some [] \<longrightarrow>
             toastErrors (onError err) = [js ''Failed to create meeting'']))"
  by (auto simp: toastErrors_onError Boolean_def)

theorem onError_message_witness:
  "toastErrors (onError \<lparr>response_data_error = Some (js ''Calendar quota exceeded''),
                         message = Some (js ''Request failed with status code 429'')\<rparr>)
     = [js ''Calendar quota exceeded'']
   \<and> toastErrors (onError \<lparr>response_data_error = None, message = None\<rparr>)
     = [js ''Failed to create meeting'']"
proof -
  have n: "js ''Calendar quota exceeded'' \<noteq> []" by (simp add: js_def)
  from onError_message
    [of "\<lparr>response_data_error = Some (js ''Calendar quota exceeded''),
          message = Some (js ''Request failed with status code 429'')\<rparr>"]
    onError_message [of "\<lparr>response_data_error = None, message = None\<rparr>"] n
  show ?thesis by simp
qed

text \<open>
  The claim as stated fails: an error without a server-supplied field and with the
  message "Network Error" is shown as "Network Error", not as the generic message.
\<close>

theorem onError_message_counterexample:
  "response_data_error \<lparr>response_data_error = None, message = Some (js ''Network Error'')\<rparr> = None
   \<and> toastErrors (onError \<lparr>response_data_error = None, message = Some (js ''Network Error'')\<rparr>)
       = [js ''Network Error'']
   \<and> js ''Network Error'' \<noteq> js ''Failed to create meeting''"
  by (simp add: toastErrors_onError Boolean_def) (simp add: js_def)


section \<open>Links of the new meeting\<close>

text \<open>
  Claim C8, as amended. The stored \<open>meetingLink\<close> is the top-level \<open>meetingLink\<close> of
  the response when that is a non-empty string; when it is absent or empty, the stored
  link is the \<open>meetingLink\<close> under the \<open>data\<close> field of the response (absent when there
  is no \<open>data\<close>). The same rule gives \<open>joinUrl\<close>.
\<close>

theorem newMeeting_links:
  "(\<forall>l. response.meetingLink r = Some l \<and> l \<noteq> [] \<longrightarrow>
        Meeting.meetingLink (newMeeting e r variables) = Some l)
   \<and> (response.meetingLink r = None \<or> response.meetingLink r = Some [] \<longrightarrow>
        Meeting.meetingLink (newMeeting e r variables)
          = (case data r of None \<Rightarrow> None | Some d \<Rightarrow> responseData.meetingLink d))
   \<and> (\<forall>l. response.joinUrl r = Some l \<and> l \<noteq> [] \<longrightarrow>
        Meeting.joinUrl (newMeeting e r variables) = Some l)
   \<and> (response.joinUrl r = None \<or> response.joinUrl r = Some [] \<longrightarrow>
        Meeting.joinUrl (newMeeting e r variables)
          = (case data r of None \<Rightarrow> None | Some d \<Rightarrow> responseData.joinUrl d))"
  by (auto simp: newMeeting_def Boolean_def)

theorem newMeeting_links_witness:
  "Meeting.meetingLink (newMeeting sampleEnv
      \<lparr>response.meetingLink = Some (js ''https://meet.example/abc''), response.joinUrl = None,
       data = Some \<lparr>responseData.meetingLink = Some (js ''https://meet.example/other''),
                    responseData.joinUrl = Some (js ''https://teams.example/j'')\<rparr>\<rparr> sampleDraft)
     = Some (js ''https://meet.example/abc'')
   \<and> Meeting.joinUrl (newMeeting sampleEnv
      \<lparr>response.meetingLink = Some (js ''https://meet.example/abc''), response.joinUrl = None,
       data = Some \<lparr>responseData.meetingLink = Some (js ''https://meet.example/other''),
                    responseData.joinUrl = Some (js ''https://teams.example/j'')\<rparr>\<rparr> sampleDraft)
     = Some (js ''https://teams.example/j'')"
proof -
  have n: "js ''https://meet.example/abc'' \<noteq> []" by (simp add: js_def)
  from newMeeting_links
    [of "\<lparr>response.meetingLink = Some (js ''https://meet.example/abc''), response.joinUrl = None,
       data = Some \<lparr>responseData.meetingLink = Some (js ''https://meet.example/other''),
                    responseData.joinUrl = Some (js ''https://teams.example/j'')\<rparr>\<rparr>"
      sampleEnv sampleDraft] n
  show ?thesis by simp
qed

text \<open>
  The claim as stated fails: a top-level \<open>meetingLink\<close> that is present and is the empty
  string is not what is stored when \<open>data\<close> carries a link.
\<close>

theorem newMeeting_links_counterexample:
  "response.meetingLink
     \<lparr>response.meetingLink = Some [], response.joinUrl = None,
      data = Some \<lparr>responseData.meetingLink = Some (js ''https://meet.example/abc''),
                   responseData.joinUrl = None\<rparr>\<rparr> = Some []
   \<and> Meeting.meetingLink (newMeeting sampleEnv
       \<lparr>response.meetingLink = Some [], response.joinUrl = None,
        data = Some \<lparr>responseData.meetingLink = Some (js ''https://meet.example/abc''),
                     responseData.joinUrl = None\<rparr>\<rparr> sampleDraft)
       = Some (js ''https://meet.example/abc'')
   \<and> Some (js ''https://meet.example/abc'') \<noteq> Some ([] :: jsstring)"
  by (simp add: newMeeting_def Boolean_def) (simp add: js_def)


section \<open>The two attendee lists\<close>

text \<open>
  Claim C10. When the mutation function issues its call for a draft and the call
  succeeds, the call is the only one made, the record put in front of the list is the
  one built from the same draft, and the attendees of the request payload are the
  attendees of that record.
\<close>

theorem payload_attendees_eq_meeting_attendees:
  assumes "mutationFn e d = Inr call" and "IntegrationService e call = Inr r"
  shows "providerCalls (snd (mutate e d s)) = [call]
         \<and> meetings (fst (mutate e d s)) = newMeeting e r d # meetings s
         \<and> payload.attendees (payloadOf call) = Meeting.attendees (newMeeting e r d)"
proof -
  from assms have "providerCalls (snd (mutate e d s)) = [call]"
    by (simp add: providerCalls_mutate)
  moreover from assms have "meetings (fst (mutate e d s)) = newMeeting e r d # meetings s"
    by (simp add: mutate_def onSuccess_def resetForm_def)
  moreover from assms(1) have "payload.attendees (payloadOf call) = attendeesList (formData.attendees d)"
    by (auto simp: mutationFn_def Let_def split: option.splits if_splits)
  then have "payload.attendees (payloadOf call) = Meeting.attendees (newMeeting e r d)"
    by (simp add: attendeesList_def newMeeting_def)
  ultimately show ?thesis by simp
qed

theorem payload_attendees_eq_meeting_attendees_witness:
  "mutationFn sampleEnv sampleDraft = Inr (createGoogleMeeting samplePayload)
   \<and> payload.attendees samplePayload = [js ''a@x.com'', js ''b@y.com'']
   \<and> Meeting.attendees (hd (meetings (fst (mutate sampleEnv sampleDraft sampleState))))
       = [js ''a@x.com'', js ''b@y.com'']"
proof -
  have s: "IntegrationService sampleEnv (createGoogleMeeting samplePayload)
       = Inr \<lparr>response.meetingLink = Some (js ''https://meet.example/abc''),
               response.joinUrl = None, data = None\<rparr>"
    by (simp add: sampleEnv_def sampleService_def)
  from payload_attendees_eq_meeting_attendees [OF sample_mutationFn s, of sampleState]
    sample_mutationFn
  show ?thesis by (simp add: samplePayload_def)
qed

end
